theory Spec2Isabelle
  imports Complex_Main
begin

section \<open>The gravity sensitivity assembler of SimPEG/PF/Gravity.py\<close>

text \<open>
  The development embeds the classes \<^verbatim>\<open>Forward\<close> and \<^verbatim>\<open>GravityIntegral\<close> of
  \<^verbatim>\<open>SimPEG/PF/Gravity.py\<close>. Conventions of the embedding:

  \<^item> Python floats are exact reals. Rounding, overflow, underflow, \<^verbatim>\<open>inf\<close> and \<^verbatim>\<open>nan\<close>
    are outside the model; every statement below about numbers is a statement of real
    arithmetic.
  \<^item> Python integers are \<open>int\<close>; array extents (\<^verbatim>\<open>shape[0]\<close>) are list lengths.
  \<^item> An exception is a value of \<open>py_error\<close>; a call that may not return yields
    \<open>None\<close> at the outermost \<open>option\<close>.
  \<^item> A numpy vector is a \<open>real list\<close>, a matrix the list of its rows, an \<open>n \<times> 2\<close>
    corner array a list of pairs (column 0, column 1).
  \<^item> \<^verbatim>\<open>print\<close> and the progress report of the sequential loop write to the screen only
    and are left out.
\<close>

type_synonym vec = "real list"
type_synonym matrix = "real list list"
type_synonym corners = "(real \<times> real) list"
type_synonym loc = "real \<times> real \<times> real"

datatype py_error =
    Exception string
  | AssertionError string
  | ZeroDivisionError
  | ValueError
  | TypeError
  | AttributeError

subsection \<open>Objects and the world around them\<close>

text \<open>
  The attributes of a \<^verbatim>\<open>GravityIntegral\<close> instance that the embedded methods read or
  write. The classes \<^verbatim>\<open>Mesh\<close>, \<^verbatim>\<open>Maps\<close> and \<^verbatim>\<open>Survey\<close> and the base class
  \<^verbatim>\<open>Problem.BaseProblem\<close> are not part of the sources, so what they supply is held as
  data:

  \<^item> \<open>survey\<close> is \<^verbatim>\<open>self.survey.srcField.rxList[0].locs\<close>, the receiver locations of the
    survey the problem is paired with, and \<open>None\<close> while it is not paired;
  \<^item> \<open>meshXn\<close>, \<open>meshYn\<close>, \<open>meshZn\<close> are the lower and upper corners of the active
    cells per axis, the rows that \<^verbatim>\<open>P.T\<close> selects from
    \<^verbatim>\<open>np.c_[Utils.mkvc(xn1), Utils.mkvc(xn2)]\<close> and its two siblings, before the
    equivalent-source shift of \<^verbatim>\<open>zn1\<close>;
  \<^item> \<open>rhoMap\<close> is \<^verbatim>\<open>self.rhoMap * m\<close> as a function of \<open>m\<close>, and \<open>rhoMap_deriv\<close> is
    \<^verbatim>\<open>self.rhoMap.deriv(m)\<close>, a matrix with one row per active cell;
  \<^item> \<open>cached_G\<close> is the attribute \<^verbatim>\<open>_G\<close>, \<open>None\<close> while it is unset.
\<close>

record GravityIntegral =
  survey :: "loc list option"
  meshXn :: corners
  meshYn :: corners
  meshZn :: corners
  rhoMap :: "vec \<Rightarrow> vec"
  rhoMap_deriv :: "vec \<Rightarrow> matrix"
  model :: "vec option"
  forwardOnly :: bool
  rxType :: string
  equiSourceLayer :: bool
  parallelized :: "string option"
  n_cpu :: "int option"
  gtgdiag :: "vec option"
  Jpath :: string
  maxRAM :: real
  verbose :: bool
  cached_G :: "matrix option"

text \<open>
  The attributes of a \<^verbatim>\<open>Forward\<close> job. A falsy \<^verbatim>\<open>parallelized\<close> is \<open>None\<close> or the
  empty string. Where both classes have an attribute of one name, the plain name is the
  job's and the problem's is written \<open>GravityIntegral.name\<close>.
\<close>

record forward =
  rxLoc :: "loc list"
  Xn :: corners
  Yn :: corners
  Zn :: corners
  n_cpu :: "int option"
  forwardOnly :: bool
  model :: "vec option"
  rxType :: string
  parallelized :: "string option"
  verbose :: bool
  Jpath :: string
  maxRAM :: real
  storeG :: bool

text \<open>
  What the code reads and writes outside its objects: the zarr stores on disk, by path
  (\<^verbatim>\<open>os.path.exists\<close> is membership in the domain, \<^verbatim>\<open>da.to_zarr\<close> writes and
  \<^verbatim>\<open>da.from_zarr\<close> reads the array), the number of rows that calls of \<^verbatim>\<open>calcTrow\<close>
  have returned so far, and \<^verbatim>\<open>multiprocessing.cpu_count()\<close>.
\<close>

record world =
  store :: "string \<rightharpoonup> matrix"
  rows_computed :: nat
  cpu_count :: int

subsection \<open>The chunk planner (lines 244 to 250 of \<^verbatim>\<open>Forward.calculate\<close>)\<close>

text \<open>
  The module is read as Python 3 (it builds on dask and zarr): \<^verbatim>\<open>a / b\<close> on integers
  is true division and raises on a zero divisor; \<^verbatim>\<open>int(x)\<close> truncates toward zero;
  \<^verbatim>\<open>np.ceil\<close> is the ceiling.
\<close>

definition truediv :: "int \<Rightarrow> int \<Rightarrow> py_error + real" where
  "truediv a b = (if b = 0 then Inl ZeroDivisionError else Inr (real_of_int a / real_of_int b))"

definition py_int :: "real \<Rightarrow> int" where
  "py_int x = (if 0 \<le> x then \<lfloor>x\<rfloor> else \<lceil>x\<rceil>)"

text \<open>\<^verbatim>\<open>totRAM = rowChunk*colChunk*8*self.n_cpu*1e-9\<close>\<close>

definition totRAM_of :: "int \<Rightarrow> int \<Rightarrow> int \<Rightarrow> real" where
  "totRAM_of rowChunk colChunk ncpu =
     real_of_int (rowChunk * colChunk * 8 * ncpu) * (1 / 10 ^ 9)"

text \<open>
  The \<^verbatim>\<open>while totRAM > self.maxRAM\<close> loop. Its state is \<open>nChunks\<close>, \<open>rowChunk\<close>,
  \<open>colChunk\<close> and \<open>totRAM\<close>; \<open>None\<close> is a loop that does not end. The quotients
  and the estimate are exact here. In floating point \<^verbatim>\<open>self.nD/nChunks\<close> underflows to
  \<open>0.0\<close> after some 1075 doublings, so the code leaves the loop with chunk sizes \<open>0\<close>
  where the exact loop does not end, and an estimate within one rounding of the budget
  can fall on the other side of the test. The planner is used below only with a plan that
  is given, or at inputs all of whose values floating point represents exactly.
\<close>

partial_function (option) chunk_loop ::
  "nat \<Rightarrow> nat \<Rightarrow> int \<Rightarrow> real \<Rightarrow> int \<Rightarrow> int \<Rightarrow> int \<Rightarrow> real
     \<Rightarrow> (py_error + int \<times> int \<times> real) option" where
  "chunk_loop nD nC ncpu budget nChunks rowChunk colChunk totRAM =
     (if totRAM > budget then
        (let nChunks' = nChunks * 2 in
         case truediv (int nD) nChunks' of
           Inl e \<Rightarrow> Some (Inl e)
         | Inr qr \<Rightarrow>
            (case truediv (int nC) nChunks' of
               Inl e \<Rightarrow> Some (Inl e)
             | Inr qc \<Rightarrow>
                (let rowChunk' = \<lceil>qr\<rceil>; colChunk' = \<lceil>qc\<rceil>
                 in chunk_loop nD nC ncpu budget nChunks' rowChunk' colChunk'
                      (totRAM_of rowChunk' colChunk' ncpu))))
      else Some (Inr (rowChunk, colChunk, totRAM)))"

declare chunk_loop.simps [code]

text \<open>
  The planner from its first line: \<^verbatim>\<open>nChunks = self.n_cpu\<close>, the first chunk sizes by
  \<^verbatim>\<open>int(self.nD/nChunks)\<close>, then the loop. The result is the triple
  \<open>(rowChunk, colChunk, totRAM)\<close>.
\<close>

definition chunk_plan ::
  "nat \<Rightarrow> nat \<Rightarrow> int \<Rightarrow> real \<Rightarrow> (py_error + int \<times> int \<times> real) option" where
  "chunk_plan nD nC ncpu budget =
     (let nChunks = ncpu in
      case truediv (int nD) nChunks of
        Inl e \<Rightarrow> Some (Inl e)
      | Inr qr \<Rightarrow>
         (case truediv (int nC) nChunks of
            Inl e \<Rightarrow> Some (Inl e)
          | Inr qc \<Rightarrow>
             (let rowChunk = py_int qr; colChunk = py_int qc
              in chunk_loop nD nC ncpu budget nChunks rowChunk colChunk
                   (totRAM_of rowChunk colChunk ncpu))))"

subsection \<open>The row kernel \<^verbatim>\<open>Forward.calcTrow\<close>\<close>

text \<open>
  \<^verbatim>\<open>scipy.constants.G\<close> is the CODATA value of the gravitational constant,
  \<open>6.67408e-11\<close> in the scipy releases of the source's time. Only its being positive
  is used below.
\<close>

definition constants_G :: real where
  "constants_G = 667408 / 10 ^ 16"

definition NewtG :: real where
  "NewtG = constants_G * 10 ^ 8"

definition eps :: real where
  "eps = 1 / 10 ^ 8"

text \<open>\<^verbatim>\<open>A[:, aa]\<close> for a two-column array and \<open>aa\<close> in \<^verbatim>\<open>range(2)\<close>.\<close>

definition column :: "corners \<Rightarrow> nat \<Rightarrow> vec" where
  "column A aa = map (\<lambda>p. if aa = 0 then fst p else snd p) A"

text \<open>
  The three parenthesised expressions of the innermost loop body, one per branch of
  \<^verbatim>\<open>if self.rxType == 'x' ... elif self.rxType == 'y' ... else\<close>, at one cell:
  \<open>x\<close>, \<open>y\<close>, \<open>z\<close> are \<^verbatim>\<open>dx[:, aa]\<close>, \<^verbatim>\<open>dy[:, bb]\<close>, \<^verbatim>\<open>dz[:, cc]\<close> there and \<open>r\<close> is
  their Euclidean norm. Where an arctangent's denominator is exactly \<open>0\<close> numpy
  yields \<^verbatim>\<open>inf\<close> or \<^verbatim>\<open>nan\<close>; the quotient is \<open>0\<close> here, and such inputs are outside
  the model.
\<close>

definition corner_term :: "string \<Rightarrow> real \<Rightarrow> real \<Rightarrow> real \<Rightarrow> real" where
  "corner_term rxT x y z =
     (let r = sqrt (x\<^sup>2 + y\<^sup>2 + z\<^sup>2) in
      if rxT = ''x'' then
        y * ln (z + r + eps) + z * ln (y + r + eps) - x * arctan (y * z / (x * r + eps))
      else if rxT = ''y'' then
        x * ln (z + r + eps) + z * ln (x + r + eps) - y * arctan (x * z / (y * r + eps))
      else
        x * ln (y + r + eps) + y * ln (x + r + eps) - z * arctan (x * y / (z * r + eps)))"

text \<open>
  The arithmetic of \<^verbatim>\<open>calcTrow\<close> is elementwise over the cells, so the three corner
  arrays have one row per cell; \<^verbatim>\<open>Intrgl_Fwr_Op\<close> builds them so, and numpy raises on
  lengths it cannot broadcast. The statements about entries of a row carry this as the
  hypothesis \<open>geometry_ok\<close>.
\<close>

definition geometry_ok :: "forward \<Rightarrow> bool" where
  "geometry_ok job = (length (Yn job) = length (Xn job) \<and> length (Zn job) = length (Xn job))"

text \<open>
  The vector that one pass of the innermost loop body subtracts from \<open>row\<close>:
  \<^verbatim>\<open>NewtG * (-1) ** aa * (-1) ** bb * (-1) ** cc * (...)\<close>.
\<close>

definition corner_contrib ::
  "string \<Rightarrow> corners \<Rightarrow> corners \<Rightarrow> corners \<Rightarrow> nat \<Rightarrow> nat \<Rightarrow> nat \<Rightarrow> vec" where
  "corner_contrib rxT dx dy dz aa bb cc =
     map (\<lambda>i. NewtG * (- 1) ^ aa * (- 1) ^ bb * (- 1) ^ cc *
               corner_term rxT (column dx aa ! i) (column dy bb ! i) (column dz cc ! i))
       [0..<length dx]"

text \<open>
  The row before the final \<^verbatim>\<open>if self.forwardOnly\<close>: \<open>row\<close> starts as
  \<^verbatim>\<open>np.zeros((1, self.Xn.shape[0]))\<close> and the three nested loops over \<^verbatim>\<open>range(2)\<close>
  subtract one contribution per corner. The subtractions are exact here; the code's
  accumulate a rounding error, so a statement that entries are equal is one about the
  numbers computed, not about their last bits.
\<close>

definition calcTrow_row :: "forward \<Rightarrow> loc \<Rightarrow> vec" where
  "calcTrow_row job xyzLoc =
     (case xyzLoc of (x0, y0, z0) \<Rightarrow>
        let row0 = replicate (length (Xn job)) 0;
            dz = map (\<lambda>(lo, hi). (z0 - lo, z0 - hi)) (Zn job);
            dy = map (\<lambda>(lo, hi). (lo - y0, hi - y0)) (Yn job);
            dx = map (\<lambda>(lo, hi). (lo - x0, hi - x0)) (Xn job)
        in foldl (\<lambda>row aa.
             foldl (\<lambda>row bb.
               foldl (\<lambda>row cc.
                 map2 (\<lambda>a b. a - b) row (corner_contrib (rxType job) dx dy dz aa bb cc))
               row [0, 1])
             row [0, 1])
           row0 [0, 1])"

definition dot :: "vec \<Rightarrow> vec \<Rightarrow> real" where
  "dot u v = sum_list (map2 (\<lambda>a b. a * b) u v)"

text \<open>
  \<^verbatim>\<open>calcTrow\<close>: the row, or in forward-only mode \<^verbatim>\<open>np.dot(row, self.model)\<close>, a
  one-element array. \<^verbatim>\<open>np.dot\<close> raises on \<^verbatim>\<open>None\<close> and on a model of another length.
\<close>

definition calcTrow :: "forward \<Rightarrow> loc \<Rightarrow> py_error + vec" where
  "calcTrow job xyzLoc =
     (let row = calcTrow_row job xyzLoc in
      if forwardOnly job then
        (case model job of
           None \<Rightarrow> Inl TypeError
         | Some mv \<Rightarrow> if length mv = length row then Inr [dot row mv] else Inl ValueError)
      else Inr row)"

subsection \<open>Assembly: \<^verbatim>\<open>Forward.calculate\<close>\<close>

text \<open>
  The list of rows \<^verbatim>\<open>[self.calcTrow(self.rxLoc[ii, :]) for ii in range(self.nD)]\<close>:
  the first call that raises ends the evaluation. Whether \<^verbatim>\<open>calcTrow\<close> raises does not
  depend on the receiver, so either every call returns or none does.
\<close>

fun all_rows :: "(py_error + vec) list \<Rightarrow> py_error + vec list" where
  "all_rows [] = Inr []"
| "all_rows (Inl e # rest) = Inl e"
| "all_rows (Inr r # rest) = (case all_rows rest of Inl e \<Rightarrow> Inl e | Inr rows \<Rightarrow> Inr (r # rows))"

definition compute_rows :: "forward \<Rightarrow> py_error + vec list" where
  "compute_rows job = all_rows (map (calcTrow job) (rxLoc job))"

text \<open>\<^verbatim>\<open>np.vstack\<close> of the rows; it raises on an empty list.\<close>

definition vstack :: "vec list \<Rightarrow> py_error + matrix" where
  "vstack result = (if result = [] then Inl ValueError else Inr result)"

text \<open>The message of the \<^verbatim>\<open>assert\<close> on \<^verbatim>\<open>self.parallelized\<close>.\<close>

definition backend_message :: "string \<Rightarrow> string" where
  "backend_message v =
     '''parallelization' must be 'dask', 'multiprocessing' or None'' @ ''Value provided -> '' @ v"

text \<open>
  The \<^verbatim>\<open>else\<close> branch of \<^verbatim>\<open>if self.parallelized\<close>: the rows one after the other, then
  \<^verbatim>\<open>np.vstack\<close>.
\<close>

definition assemble_sequential :: "forward \<Rightarrow> world \<Rightarrow> (py_error + matrix) \<times> world" where
  "assemble_sequential job w =
     (case compute_rows job of
        Inl e \<Rightarrow> (Inl e, w)
      | Inr result \<Rightarrow>
          (vstack result, w\<lparr>rows_computed := rows_computed w + length result\<rparr>))"

text \<open>
  The branch \<^verbatim>\<open>self.parallelized == "multiprocessing"\<close>. \<^verbatim>\<open>multiprocessing.Pool\<close> raises
  on a process count below one; \<^verbatim>\<open>pool.map\<close> returns the results in the order of its
  argument list.
\<close>

definition assemble_pool :: "forward \<Rightarrow> int \<Rightarrow> world \<Rightarrow> (py_error + matrix) \<times> world" where
  "assemble_pool job ncpu w =
     (if ncpu < 1 then (Inl ValueError, w)
      else case compute_rows job of
        Inl e \<Rightarrow> (Inl e, w)
      | Inr result \<Rightarrow>
          (vstack result, w\<lparr>rows_computed := rows_computed w + length result\<rparr>))"

text \<open>
  The branch \<^verbatim>\<open>self.parallelized == "dask"\<close>. A store at \<^verbatim>\<open>self.Jpath\<close> is loaded and
  nothing else happens. Otherwise one delayed row per receiver is stacked with
  \<^verbatim>\<open>da.vstack\<close> (which raises on an empty list; the class of that error varies with
  the dask release and is written \<open>ValueError\<close>), rechunked, and either written to
  the store and read back (\<^verbatim>\<open>self.storeG\<close>) or computed in memory.

  A dask array is modelled by the values it computes to, so \<^verbatim>\<open>rechunk\<close> is the
  identity. Two situations lie outside what this source determines and outside the
  model: a block of another shape than the \<^verbatim>\<open>shape=(1, self.nC)\<close> announced to
  \<^verbatim>\<open>da.from_delayed\<close>, which is what forward-only mode produces, and a block size
  below one handed to \<^verbatim>\<open>rechunk\<close>. In both the code raises where the definition
  below returns a matrix, and a run that fails after \<^verbatim>\<open>da.to_zarr\<close> has begun may leave
  a store where the definition leaves none. The predicate \<open>dask_graph_ok\<close> excludes
  both, and the statements about this branch building a matrix assume it.
\<close>

definition dask_graph_ok :: "forward \<Rightarrow> int \<Rightarrow> int \<Rightarrow> bool" where
  "dask_graph_ok job rowChunk colChunk = (\<not> forwardOnly job \<and> 1 \<le> rowChunk \<and> 1 \<le> colChunk)"

definition assemble_dask :: "forward \<Rightarrow> world \<Rightarrow> (py_error + matrix) \<times> world" where
  "assemble_dask job w =
     (case store w (Jpath job) of
        Some stored \<Rightarrow> (Inr stored, w)
      | None \<Rightarrow>
          if rxLoc job = [] then (Inl ValueError, w)
          else case compute_rows job of
            Inl e \<Rightarrow> (Inl e, w)
          | Inr stack \<Rightarrow>
              (let w' = w\<lparr>rows_computed := rows_computed w + length stack\<rparr>
               in if storeG job
                  then (Inr stack, w'\<lparr>store := (store w')(Jpath job \<mapsto> stack)\<rparr>)
                  else (Inr stack, w')))"

text \<open>
  \<^verbatim>\<open>if self.n_cpu is None: self.n_cpu = int(multiprocessing.cpu_count())\<close>
\<close>

definition worker_count :: "forward \<Rightarrow> world \<Rightarrow> int" where
  "worker_count job w = (case n_cpu job of None \<Rightarrow> cpu_count w | Some n \<Rightarrow> n)"

text \<open>
  \<^verbatim>\<open>Forward.calculate\<close>: the worker count, the chunk planner, then the dispatch on
  \<^verbatim>\<open>self.parallelized\<close>. The \<^verbatim>\<open>assert\<close> is taken as executed (an interpreter run
  without \<^verbatim>\<open>-O\<close>).
\<close>

definition calculate :: "forward \<Rightarrow> world \<Rightarrow> ((py_error + matrix) \<times> world) option" where
  "calculate job w =
     (let nD = length (rxLoc job);
          nC = length (Xn job);
          ncpu = worker_count job w
      in case chunk_plan nD nC ncpu (maxRAM job) of
           None \<Rightarrow> None
         | Some (Inl e) \<Rightarrow> Some (Inl e, w)
         | Some (Inr (rowChunk, colChunk, totRAM)) \<Rightarrow>
             Some (case parallelized job of
                     None \<Rightarrow> assemble_sequential job w
                   | Some v \<Rightarrow>
                       if v = [] then assemble_sequential job w
                       else if v \<noteq> ''dask'' \<and> v \<noteq> ''multiprocessing''
                         then (Inl (AssertionError (backend_message v)), w)
                       else if v = ''dask'' then assemble_dask job w
                       else assemble_pool job ncpu w))"

subsection \<open>The operator \<^verbatim>\<open>GravityIntegral\<close>\<close>

text \<open>
  \<^verbatim>\<open>Intrgl_Fwr_Op(m)\<close>: sets the model when \<open>m\<close> is given, takes the corner arrays
  (with \<^verbatim>\<open>zn1 -= 1000.\<close> for an equivalent-source layer) and the receiver locations,
  builds the job and runs it. The job keeps the class default \<^verbatim>\<open>storeG = True\<close>.
  Reading the receivers of a survey that is \<^verbatim>\<open>None\<close> raises. The attributes
  \<^verbatim>\<open>nC\<close>, \<^verbatim>\<open>Xn\<close>, \<^verbatim>\<open>Yn\<close>, \<^verbatim>\<open>Zn\<close>, \<^verbatim>\<open>rxLoc\<close> and \<^verbatim>\<open>nD\<close> that the method
  writes on the problem are read by nothing but the construction of the job and are
  not kept.
\<close>

definition Intrgl_Fwr_Op ::
  "GravityIntegral \<Rightarrow> vec option \<Rightarrow> world
     \<Rightarrow> ((py_error + matrix) \<times> GravityIntegral \<times> world) option" where
  "Intrgl_Fwr_Op p m w =
     (let p1 = (case m of
                  None \<Rightarrow> p
                | Some mv \<Rightarrow> p\<lparr>GravityIntegral.model := Some (rhoMap p mv)\<rparr>);
          zn = (if equiSourceLayer p1
                then map (\<lambda>(lo, hi). (lo - 1000, hi)) (meshZn p1)
                else meshZn p1)
      in case survey p1 of
           None \<Rightarrow> Some (Inl AttributeError, p1, w)
         | Some locs \<Rightarrow>
             (case calculate
                     \<lparr>rxLoc = locs, Xn = meshXn p1, Yn = meshYn p1, Zn = zn,
                      n_cpu = GravityIntegral.n_cpu p1,
                      forwardOnly = GravityIntegral.forwardOnly p1,
                      model = GravityIntegral.model p1,
                      rxType = GravityIntegral.rxType p1,
                      parallelized = GravityIntegral.parallelized p1,
                      verbose = GravityIntegral.verbose p1,
                      Jpath = GravityIntegral.Jpath p1,
                      maxRAM = GravityIntegral.maxRAM p1,
                      storeG = True\<rparr> w of
                None \<Rightarrow> None
              | Some (res, w') \<Rightarrow> Some (res, p1, w')))"

text \<open>
  Modelled from the spec: \<^verbatim>\<open>Problem.BaseProblem.ispaired\<close> is not part of the sources;
  the operator is paired when it has been bound to a receiver/survey configuration.
\<close>

definition ispaired :: "GravityIntegral \<Rightarrow> bool" where
  "ispaired p = (survey p \<noteq> None)"

text \<open>The property \<^verbatim>\<open>G\<close>.\<close>

definition G ::
  "GravityIntegral \<Rightarrow> world \<Rightarrow> ((py_error + matrix) \<times> GravityIntegral \<times> world) option" where
  "G p w =
     (if \<not> ispaired p then Some (Inl (Exception ''Need to pair!''), p, w)
      else case cached_G p of
        Some g \<Rightarrow> Some (Inr g, p, w)
      | None \<Rightarrow>
          (case Intrgl_Fwr_Op p None w of
             None \<Rightarrow> None
           | Some (Inl e, p', w') \<Rightarrow> Some (Inl e, p', w')
           | Some (Inr g, p', w') \<Rightarrow> Some (Inr g, p'\<lparr>cached_G := Some g\<rparr>, w')))"

text \<open>
  \<^verbatim>\<open>da.dot(self.G, m)\<close>, which raises unless every row has the length of \<open>m\<close>, and
  \<^verbatim>\<open>mkvc\<close>, the column-major flattening of \<^verbatim>\<open>SimPEG.Utils\<close>.
\<close>

definition mat_vec :: "matrix \<Rightarrow> vec \<Rightarrow> py_error + vec" where
  "mat_vec g v =
     (if list_all (\<lambda>row. length row = length v) g
      then Inr (map (\<lambda>row. dot row v) g) else Inl ValueError)"

definition mkvc :: "matrix \<Rightarrow> vec" where
  "mkvc a = concat (transpose a)"

text \<open>\<^verbatim>\<open>GravityIntegral.fields\<close>\<close>

definition fields ::
  "GravityIntegral \<Rightarrow> vec \<Rightarrow> world \<Rightarrow> ((py_error + vec) \<times> GravityIntegral \<times> world) option" where
  "fields p m w =
     (let m' = rhoMap p m in
      if GravityIntegral.forwardOnly p then
        (case Intrgl_Fwr_Op p (Some m') w of
           None \<Rightarrow> None
         | Some (Inl e, p', w') \<Rightarrow> Some (Inl e, p', w')
         | Some (Inr f, p', w') \<Rightarrow> Some (Inr (mkvc f), p', w'))
      else
        (case G p w of
           None \<Rightarrow> None
         | Some (Inl e, p', w') \<Rightarrow> Some (Inl e, p', w')
         | Some (Inr g, p', w') \<Rightarrow> Some (mat_vec g m', p', w')))"

text \<open>
  The pieces of \<^verbatim>\<open>getJtJdiag\<close>: the column count \<^verbatim>\<open>shape[1]\<close>, \<^verbatim>\<open>W.diagonal()\<close>,
  \<^verbatim>\<open>da.sum(self.G**2., 0)\<close>, \<^verbatim>\<open>np.sum(..., axis=0)\<close>, and the returned expression
  \<^verbatim>\<open>np.sum((sdiag(mkvc(self.gtgdiag)**0.5) * dmudm).power(2.), axis=0)\<close>, where
  \<^verbatim>\<open>sdiag(d) * a\<close> scales row \<open>i\<close> of \<open>a\<close> by \<open>d ! i\<close> and raises unless \<open>a\<close> has as
  many rows as \<open>d\<close> has entries. A matrix without rows has no column count here.
\<close>

definition ncols :: "matrix \<Rightarrow> nat" where
  "ncols a = (case a of [] \<Rightarrow> 0 | row # rest \<Rightarrow> length row)"

definition diagonal :: "matrix \<Rightarrow> vec" where
  "diagonal a = map (\<lambda>i. a ! i ! i) [0..<min (length a) (ncols a)]"

definition col_sums :: "matrix \<Rightarrow> vec" where
  "col_sums a = map (\<lambda>j. sum_list (map (\<lambda>row. row ! j) a)) [0..<ncols a]"

definition col_sum_squares :: "matrix \<Rightarrow> vec" where
  "col_sum_squares g = col_sums (map (map (\<lambda>x. x\<^sup>2)) g)"

definition jtj_from :: "vec \<Rightarrow> matrix \<Rightarrow> py_error + vec" where
  "jtj_from gtg dmudm =
     (if length gtg = length dmudm
      then Inr (col_sums (map (map (\<lambda>x. x\<^sup>2))
                  (map2 (\<lambda>d row. map (\<lambda>x. sqrt d * x) row) gtg dmudm)))
      else Inl ValueError)"

text \<open>
  \<^verbatim>\<open>GravityIntegral.getJtJdiag(m, W)\<close>. While \<^verbatim>\<open>self.gtgdiag\<close> is unset the unused
  vector \<open>w\<close> is built first, from \<^verbatim>\<open>self.G.shape[1]\<close> when \<open>W\<close> is \<^verbatim>\<open>None\<close> and from
  \<^verbatim>\<open>W.diagonal()\<close> otherwise, then \<^verbatim>\<open>self.G\<close> is read for the sum of squares.
\<close>

definition getJtJdiag ::
  "GravityIntegral \<Rightarrow> vec \<Rightarrow> matrix option \<Rightarrow> world
     \<Rightarrow> ((py_error + vec) \<times> GravityIntegral \<times> world) option" where
  "getJtJdiag p m W w =
     (let dmudm = rhoMap_deriv p m;
          p1 = p\<lparr>GravityIntegral.model := Some m\<rparr>
      in case gtgdiag p1 of
           Some c \<Rightarrow> Some (jtj_from c dmudm, p1, w)
         | None \<Rightarrow>
             (case (case W of
                      None \<Rightarrow>
                        (case G p1 w of
                           None \<Rightarrow> None
                         | Some (Inl e, p2, w2) \<Rightarrow> Some (Inl e, p2, w2)
                         | Some (Inr g, p2, w2) \<Rightarrow> Some (Inr (replicate (ncols g) 1), p2, w2))
                    | Some Wm \<Rightarrow> Some (Inr (diagonal Wm), p1, w)) of
                None \<Rightarrow> None
              | Some (Inl e, p2, w2) \<Rightarrow> Some (Inl e, p2, w2)
              | Some (Inr wv, p2, w2) \<Rightarrow>
                  (case G p2 w2 of
                     None \<Rightarrow> None
                   | Some (Inl e, p3, w3) \<Rightarrow> Some (Inl e, p3, w3)
                   | Some (Inr g, p3, w3) \<Rightarrow>
                       (let c = col_sum_squares g
                        in Some (jtj_from c dmudm, p3\<lparr>gtgdiag := Some c\<rparr>, w3)))))"

section \<open>Reference notions and sample inputs\<close>

subsection \<open>The signed sum over the eight corners of a prism\<close>

text \<open>
  The closed form of the response of a rectangular prism, written out on its own for
  comparison with the kernel. \<open>x\<close>, \<open>y\<close>, \<open>z\<close> are the displacements of one corner
  from the receiver and \<open>r\<close> is their Euclidean norm; the corner contributes an
  arctangent term and two logarithmic terms, with the offset \<open>1e-8\<close> added to the
  arctangent's denominator and to each logarithm's argument. One term per field
  component.
\<close>

definition prism_term_x :: "real \<Rightarrow> real \<Rightarrow> real \<Rightarrow> real" where
  "prism_term_x x y z =
     (let r = sqrt (x\<^sup>2 + y\<^sup>2 + z\<^sup>2) in
      x * arctan (y * z / (x * r + 1 / 10 ^ 8))
        - y * ln (z + r + 1 / 10 ^ 8) - z * ln (y + r + 1 / 10 ^ 8))"

definition prism_term_y :: "real \<Rightarrow> real \<Rightarrow> real \<Rightarrow> real" where
  "prism_term_y x y z =
     (let r = sqrt (x\<^sup>2 + y\<^sup>2 + z\<^sup>2) in
      y * arctan (x * z / (y * r + 1 / 10 ^ 8))
        - x * ln (z + r + 1 / 10 ^ 8) - z * ln (x + r + 1 / 10 ^ 8))"

definition prism_term_z :: "real \<Rightarrow> real \<Rightarrow> real \<Rightarrow> real" where
  "prism_term_z x y z =
     (let r = sqrt (x\<^sup>2 + y\<^sup>2 + z\<^sup>2) in
      z * arctan (x * y / (z * r + 1 / 10 ^ 8))
        - x * ln (y + r + 1 / 10 ^ 8) - y * ln (x + r + 1 / 10 ^ 8))"

text \<open>
  The sum over the corners \<open>(a, b, c)\<close> of the prism, \<open>a\<close>, \<open>b\<close>, \<open>c\<close> in \<open>{0, 1}\<close>,
  each corner with the sign \<open>(-1) ^ (a + b + c)\<close>. A pair holds the displacement of the
  lower and of the upper face along an axis.
\<close>

definition corner_of :: "real \<times> real \<Rightarrow> nat \<Rightarrow> real" where
  "corner_of p a = (if a = 0 then fst p else snd p)"

definition corner_sum ::
  "(real \<Rightarrow> real \<Rightarrow> real \<Rightarrow> real) \<Rightarrow> real \<times> real \<Rightarrow> real \<times> real \<Rightarrow> real \<times> real \<Rightarrow> real" where
  "corner_sum t dxp dyp dzp =
     (\<Sum>a\<in>{0, 1}. \<Sum>b\<in>{0, 1}. \<Sum>c\<in>{0, 1}.
        (- 1) ^ (a + b + c) * t (corner_of dxp a) (corner_of dyp b) (corner_of dzp c))"

text \<open>
  The same sum over the expressions of the loop body (\<open>corner_term\<close>), and the
  displacements of cell \<open>i\<close> from a receiver as \<^verbatim>\<open>calcTrow\<close> forms them:
  \<^verbatim>\<open>dx = self.Xn - xyzLoc[0]\<close>, \<^verbatim>\<open>dy = self.Yn - xyzLoc[1]\<close>,
  \<^verbatim>\<open>dz = xyzLoc[2] - self.Zn\<close>. Both serve the proofs only.
\<close>

definition signed_corner_sum ::
  "string \<Rightarrow> real \<times> real \<Rightarrow> real \<times> real \<Rightarrow> real \<times> real \<Rightarrow> real" where
  "signed_corner_sum rxT dxp dyp dzp =
     (\<Sum>a\<in>{0, 1}. \<Sum>b\<in>{0, 1}. \<Sum>c\<in>{0, 1}.
        (- 1) ^ (a + b + c) *
        corner_term rxT (corner_of dxp a) (corner_of dyp b) (corner_of dzp c))"

definition displacements ::
  "forward \<Rightarrow> loc \<Rightarrow> nat \<Rightarrow> (real \<times> real) \<times> (real \<times> real) \<times> (real \<times> real)" where
  "displacements job xyzLoc i =
     (case xyzLoc of (x0, y0, z0) \<Rightarrow>
        ((fst (Xn job ! i) - x0, snd (Xn job ! i) - x0),
         (fst (Yn job ! i) - y0, snd (Yn job ! i) - y0),
         (z0 - fst (Zn job ! i), z0 - snd (Zn job ! i))))"

subsection \<open>The diagonal of \<open>J\<^sup>T diag(c) J\<close>\<close>

text \<open>
  Matrix transpose, product, diagonal matrix and diagonal, each by its textbook
  definition on lists of rows; \<open>n\<close> is the column count of the matrix transposed or
  multiplied on the right.
\<close>

definition mat_transpose :: "nat \<Rightarrow> matrix \<Rightarrow> matrix" where
  "mat_transpose n a = map (\<lambda>j. map (\<lambda>row. row ! j) a) [0..<n]"

definition mat_mul :: "nat \<Rightarrow> matrix \<Rightarrow> matrix \<Rightarrow> matrix" where
  "mat_mul n a b = map (\<lambda>row. map (\<lambda>j. \<Sum>k<length b. row ! k * b ! k ! j) [0..<n]) a"

definition diag_matrix :: "vec \<Rightarrow> matrix" where
  "diag_matrix c =
     map (\<lambda>i. map (\<lambda>j. if i = j then c ! i else 0) [0..<length c]) [0..<length c]"

definition diag_of :: "matrix \<Rightarrow> vec" where
  "diag_of a = map (\<lambda>i. a ! i ! i) [0..<length a]"

definition spec_JtJdiag :: "nat \<Rightarrow> vec \<Rightarrow> matrix \<Rightarrow> vec" where
  "spec_JtJdiag nP c dmudm =
     diag_of (mat_mul nP (mat_mul (length c) (mat_transpose nP dmudm) (diag_matrix c)) dmudm)"

text \<open>
  The vector of the sums of the squared entries of each column of an \<open>nD \<times> nC\<close>
  matrix.
\<close>

definition colSumSquares :: "nat \<Rightarrow> nat \<Rightarrow> matrix \<Rightarrow> vec" where
  "colSumSquares nD nC g = map (\<lambda>j. \<Sum>i<nD. (g ! i ! j)\<^sup>2) [0..<nC]"

text \<open>A matrix with \<open>nr\<close> rows of \<open>nc\<close> entries each.\<close>

definition has_shape :: "nat \<Rightarrow> nat \<Rightarrow> matrix \<Rightarrow> bool" where
  "has_shape nr nc a = (length a = nr \<and> list_all (\<lambda>row. length row = nc) a)"

subsection \<open>Sample inputs\<close>

text \<open>
  One receiver at the origin and one cell, the prism \<open>[0, 1] \<times> [0, 1] \<times> [-3, 0]\<close>
  below it; the vertical component, one worker, the default budget of 8 and the
  default store path; the sequential backend.
\<close>

definition example_job :: forward where
  "example_job =
     \<lparr>rxLoc = [(0, 0, 0)], Xn = [(0, 1)], Yn = [(0, 1)], Zn = [(- 3, 0)],
      n_cpu = Some 1, forwardOnly = False, model = None, rxType = ''z'',
      parallelized = None, verbose = True, Jpath = ''./sensitivity.zarr'',
      maxRAM = 8, storeG = True\<rparr>"

text \<open>A machine with four cores: nothing stored yet, then with a store at the default path.\<close>

definition example_world :: world where
  "example_world = \<lparr>store = Map.empty, rows_computed = 0, cpu_count = 4\<rparr>"

definition stale_world :: world where
  "stale_world =
     \<lparr>store = [''./sensitivity.zarr'' \<mapsto> [[0]]], rows_computed = 0, cpu_count = 4\<rparr>"

text \<open>
  A problem over the same cell and receiver whose density map doubles the model
  (a linear map with derivative \<open>2 I\<close>); the sequential backend.
\<close>

definition example_problem :: GravityIntegral where
  "example_problem =
     \<lparr>survey = Some [(0, 0, 0)], meshXn = [(0, 1)], meshYn = [(0, 1)], meshZn = [(- 3, 0)],
      rhoMap = map (\<lambda>x. 2 * x), rhoMap_deriv = (\<lambda>m. [[2]]),
      GravityIntegral.model = None, GravityIntegral.forwardOnly = False,
      GravityIntegral.rxType = ''z'', equiSourceLayer = False,
      GravityIntegral.parallelized = None, GravityIntegral.n_cpu = Some 1,
      gtgdiag = None, GravityIntegral.Jpath = ''./sensitivity.zarr'',
      GravityIntegral.maxRAM = 8, GravityIntegral.verbose = True, cached_G = None\<rparr>"

text \<open>
  The same problem with a hand-built \<open>2 \<times> 2\<close> matrix in its cache and the identity as
  the derivative of its map.
\<close>

definition cached_problem :: GravityIntegral where
  "cached_problem =
     example_problem\<lparr>rhoMap_deriv := (\<lambda>m. [[1, 0], [0, 1]]),
                     cached_G := Some [[1, 2], [3, 4]]\<rparr>"

section \<open>The row kernel\<close>

lemma length_calcTrow_row: "length (calcTrow_row job xyzLoc) = length (Xn job)"
  by (cases xyzLoc) (simp add: calcTrow_row_def corner_contrib_def Let_def)

text \<open>
  The eight passes of the loop body, read off at one index: every pass subtracts, so the
  entry is the negated product of \<open>NewtG\<close> and the signed sum of the body's
  expressions.
\<close>

lemma calcTrow_row_nth:
  assumes "geometry_ok job" and "i < length (Xn job)"
  shows "calcTrow_row job xyzLoc ! i =
     (case displacements job xyzLoc i of (dxp, dyp, dzp) \<Rightarrow>
        - NewtG * signed_corner_sum (rxType job) dxp dyp dzp)"
proof -
  obtain x0 y0 z0 where xyz: "xyzLoc = (x0, y0, z0)" by (cases xyzLoc)
  from assms have ly: "i < length (Yn job)" and lz: "i < length (Zn job)"
    by (simp_all add: geometry_ok_def)
  show ?thesis
    using assms(2) ly lz
    by (simp add: xyz calcTrow_row_def corner_contrib_def column_def Let_def
        displacements_def signed_corner_sum_def corner_of_def split_beta algebra_simps)
qed

lemma corner_term_else:
  "rxT \<noteq> ''x'' \<Longrightarrow> rxT \<noteq> ''y'' \<Longrightarrow> corner_term rxT = corner_term ''z''"
  by (intro ext) (simp add: corner_term_def)

lemma calcTrow_row_else:
  assumes "rxType job \<noteq> ''x''" and "rxType job \<noteq> ''y''"
  shows "calcTrow_row job xyzLoc = calcTrow_row (job\<lparr>rxType := ''z''\<rparr>) xyzLoc"
proof -
  have "corner_contrib (rxType job) = corner_contrib ''z''"
    unfolding corner_contrib_def corner_term_else [OF assms] ..
  then show ?thesis by (simp add: calcTrow_row_def)
qed

text \<open>
  The expressions of the loop body are the negated closed-form terms: the body
  subtracts them, so the row holds the closed form itself.
\<close>

lemma corner_term_prism:
  "corner_term ''x'' x y z = - prism_term_x x y z"
  "corner_term ''y'' x y z = - prism_term_y x y z"
  "rxT \<noteq> ''x'' \<Longrightarrow> rxT \<noteq> ''y'' \<Longrightarrow> corner_term rxT x y z = - prism_term_z x y z"
  by (simp_all add: corner_term_def prism_term_x_def prism_term_y_def prism_term_z_def
      eps_def Let_def)

lemma signed_corner_sum_prism:
  "signed_corner_sum rxT dxp dyp dzp =
     - corner_sum (if rxT = ''x'' then prism_term_x
                   else if rxT = ''y'' then prism_term_y else prism_term_z) dxp dyp dzp"
  by (simp add: signed_corner_sum_def corner_sum_def corner_term_prism)

subsection \<open>The sample cell has a positive vertical response\<close>

lemma eps_bounds: "0 < eps" "eps < 1"
  by (simp_all add: eps_def)

lemma NewtG_pos: "0 < NewtG"
  by (simp add: NewtG_def constants_G_def)

lemma sqrt10_ge: "3 \<le> sqrt 10"
  by (rule real_le_rsqrt) simp

lemma sqrt11_le: "sqrt 11 \<le> 4"
  by (rule real_le_lsqrt) simp_all

lemma example_logs:
  "ln (1 + eps) + ln (1 + sqrt 11 + eps) \<le> ln (sqrt 10 + eps) + ln (1 + sqrt 2 + eps)"
proof -
  have e: "0 < eps" "eps < 1" by (rule eps_bounds)+
  have s2: "1 \<le> sqrt 2" by simp
  have "(1 + eps) * (1 + sqrt 11 + eps) \<le> (1 + eps) * (5 + eps)"
    using e sqrt11_le by (intro mult_left_mono) simp_all
  also have "\<dots> \<le> (3 + eps) * (2 + eps)"
    using e by (simp add: algebra_simps)
  also have "\<dots> \<le> (sqrt 10 + eps) * (1 + sqrt 2 + eps)"
    using e sqrt10_ge s2 by (intro mult_mono) simp_all
  finally have le: "(1 + eps) * (1 + sqrt 11 + eps) \<le> (sqrt 10 + eps) * (1 + sqrt 2 + eps)" .
  have pos: "0 < (1 + eps) * (1 + sqrt 11 + eps)"
    using e by (intro mult_pos_pos add_pos_nonneg) simp_all
  from le pos have "ln ((1 + eps) * (1 + sqrt 11 + eps))
      \<le> ln ((sqrt 10 + eps) * (1 + sqrt 2 + eps))"
    by (intro ln_mono) simp_all
  moreover have "ln ((1 + eps) * (1 + sqrt 11 + eps)) = ln (1 + eps) + ln (1 + sqrt 11 + eps)"
    using e by (intro ln_mult_pos) (simp_all add: add_pos_nonneg)
  moreover have "ln ((sqrt 10 + eps) * (1 + sqrt 2 + eps))
      = ln (sqrt 10 + eps) + ln (1 + sqrt 2 + eps)"
    using e by (intro ln_mult_pos) (simp_all add: add_pos_nonneg)
  ultimately show ?thesis by simp
qed

lemma example_arctan: "0 < arctan (1 / (3 * sqrt 11 + eps))"
  using eps_bounds by (simp add: add_pos_pos)

lemma neg_from_parts:
  fixes s l1 l2 a :: real
  shows "s = 2 * (l1 - l2) - 3 * a \<Longrightarrow> l1 \<le> l2 \<Longrightarrow> 0 < a \<Longrightarrow> s < 0"
  by simp

lemma example_sum_neg: "signed_corner_sum ''z'' (0, 1) (0, 1) (3, 0) < 0"
proof -
  have "signed_corner_sum ''z'' (0, 1) (0, 1) (3, 0) =
      2 * (ln (1 + eps) + ln (1 + sqrt 11 + eps) - (ln (sqrt 10 + eps) + ln (1 + sqrt 2 + eps)))
      - 3 * arctan (1 / (3 * sqrt 11 + eps))"
    by (simp add: signed_corner_sum_def corner_of_def corner_term_def Let_def
        power2_eq_square algebra_simps)
  then show ?thesis using example_logs example_arctan by (rule neg_from_parts)
qed

lemma example_job_facts:
  "geometry_ok example_job" "length (Xn example_job) = 1" "rxType example_job = ''z''"
  "displacements example_job (0, 0, 0) 0 = ((0, 1), (0, 1), (3, 0))"
  by (simp_all add: example_job_def geometry_ok_def displacements_def)

lemma example_row: "calcTrow_row example_job (0, 0, 0) =
    [- NewtG * signed_corner_sum ''z'' (0, 1) (0, 1) (3, 0)]"
proof -
  have "length (calcTrow_row example_job (0, 0, 0)) = 1"
    by (simp add: length_calcTrow_row example_job_facts)
  moreover have "calcTrow_row example_job (0, 0, 0) ! 0 =
      - NewtG * signed_corner_sum ''z'' (0, 1) (0, 1) (3, 0)"
    using calcTrow_row_nth [of example_job 0 "(0, 0, 0)"] by (simp add: example_job_facts)
  ultimately show ?thesis
    by (cases "calcTrow_row example_job (0, 0, 0)") simp_all
qed

lemma example_entry_pos: "0 < - NewtG * signed_corner_sum ''z'' (0, 1) (0, 1) (3, 0)"
  using NewtG_pos example_sum_neg by (simp add: mult_pos_neg)

subsection \<open>Claims about the row kernel\<close>

text \<open>
  C4: for every receiver location, every cell geometry and every field component, each
  entry of the row equals the conversion constant, \<^verbatim>\<open>constants.G*1e+8\<close>, times the
  signed sum over the eight corners of the cell, the corner \<open>(a, b, c)\<close> with sign
  \<open>(-1) ^ (a + b + c)\<close> and with the logarithmic and arctangent term of the component
  (\<open>prism_term_x\<close>, \<open>prism_term_y\<close>, \<open>prism_term_z\<close>), in which \<open>1e-8\<close> is added to
  each logarithm argument and arctangent denominator. The displacements are those of
  the cell's lower and upper faces from the receiver.
\<close>

theorem row_entry_is_signed_corner_sum:
  assumes "geometry_ok job" and "i < length (Xn job)"
  shows "calcTrow_row job (x0, y0, z0) ! i =
     constants_G * 10 ^ 8 *
     corner_sum (if rxType job = ''x'' then prism_term_x
                 else if rxType job = ''y'' then prism_term_y else prism_term_z)
        (fst (Xn job ! i) - x0, snd (Xn job ! i) - x0)
        (fst (Yn job ! i) - y0, snd (Yn job ! i) - y0)
        (z0 - fst (Zn job ! i), z0 - snd (Zn job ! i))"
  using calcTrow_row_nth [OF assms, of "(x0, y0, z0)"]
  by (simp add: displacements_def signed_corner_sum_prism NewtG_def)

theorem row_entry_is_signed_corner_sum_witness:
  "calcTrow_row (example_job\<lparr>rxType := ''x''\<rparr>) (0, 0, 0) ! 0
     = constants_G * 10 ^ 8 * corner_sum prism_term_x (0, 1) (0, 1) (3, 0) \<and>
   calcTrow_row (example_job\<lparr>rxType := ''y''\<rparr>) (0, 0, 0) ! 0
     = constants_G * 10 ^ 8 * corner_sum prism_term_y (0, 1) (0, 1) (3, 0) \<and>
   calcTrow_row example_job (0, 0, 0) ! 0
     = constants_G * 10 ^ 8 * corner_sum prism_term_z (0, 1) (0, 1) (3, 0)"
  using row_entry_is_signed_corner_sum [of "example_job\<lparr>rxType := ''x''\<rparr>" 0 0 0 0]
    row_entry_is_signed_corner_sum [of "example_job\<lparr>rxType := ''y''\<rparr>" 0 0 0 0]
    row_entry_is_signed_corner_sum [of example_job 0 0 0 0]
  by (simp add: example_job_def geometry_ok_def)

text \<open>
  C10: for every field-component identifier other than \<open>x\<close> and \<open>y\<close> the kernel
  computes what it computes for \<open>z\<close>; the identifier is not validated, and in
  particular the call returns a row whenever forward-only mode is off.
\<close>

theorem unrecognised_component_is_vertical:
  assumes "rxType job \<noteq> ''x''" and "rxType job \<noteq> ''y''"
  shows "calcTrow job xyzLoc = calcTrow (job\<lparr>rxType := ''z''\<rparr>) xyzLoc \<and>
         (\<not> forwardOnly job \<longrightarrow>
            calcTrow job xyzLoc = Inr (calcTrow_row (job\<lparr>rxType := ''z''\<rparr>) xyzLoc))"
  using calcTrow_row_else [OF assms, of xyzLoc] by (simp add: calcTrow_def Let_def)

theorem unrecognised_component_is_vertical_witness:
  "calcTrow (example_job\<lparr>rxType := ''vertical''\<rparr>) (0, 0, 0) =
     Inr (calcTrow_row example_job (0, 0, 0))"
  using unrecognised_component_is_vertical [of "example_job\<lparr>rxType := ''vertical''\<rparr>" "(0, 0, 0)"]
  by (simp add: example_job_def calcTrow_def Let_def)

section \<open>The chunk planner\<close>

text \<open>
  C2 states that for all \<open>nD\<close>, \<open>nC\<close>, \<open>n_cpu\<close> from \<open>1\<close> and every positive budget
  the planner terminates without raising and returns chunk sizes of at least \<open>1\<close> whose
  estimate is within the budget. With one receiver, one cell, four workers and the
  default budget of \<open>8\<close> the first chunk sizes, \<^verbatim>\<open>int(self.nD/nChunks)\<close>, are
  \<open>int(0.25) = 0\<close>, the estimate is \<open>0\<close>, the loop is not entered and the planner
  returns the chunk sizes \<open>(0, 0)\<close>, which \<^verbatim>\<open>calculate\<close> then hands to
  \<^verbatim>\<open>stack.rechunk\<close>. The first line truncates where the loop body, two lines below,
  takes the ceiling and so never yields \<open>0\<close> for a positive extent. Every value of
  this run is exact in floating point as well.
\<close>

theorem chunk_plan_fewer_receivers_than_workers:
  "\<exists>rowChunk colChunk totRAM.
     chunk_plan 1 1 4 8 = Some (Inr (rowChunk, colChunk, totRAM)) \<and>
     rowChunk = 0 \<and> colChunk = 0 \<and> totRAM = 0 \<and> rowChunk < 1 \<and> colChunk < 1"
  by (simp add: chunk_plan_def truediv_def py_int_def totRAM_of_def chunk_loop.simps)

section \<open>Assembly\<close>

lemma all_rows_Inr: "all_rows (map (\<lambda>x. Inr (f x)) xs) = Inr (map f xs)"
  by (induction xs) simp_all

lemma calcTrow_full:
  "\<not> forwardOnly job \<Longrightarrow> calcTrow job = (\<lambda>xyzLoc. Inr (calcTrow_row job xyzLoc))"
  by (intro ext) (simp add: calcTrow_def Let_def)

lemma compute_rows_full:
  "\<not> forwardOnly job \<Longrightarrow> compute_rows job = Inr (map (calcTrow_row job) (rxLoc job))"
  by (simp add: compute_rows_def calcTrow_full all_rows_Inr)

lemma calcTrow_row_parallelized [simp]:
  "calcTrow_row (job\<lparr>parallelized := v\<rparr>) = calcTrow_row job"
  by (intro ext) (simp add: calcTrow_row_def)

lemma calculate_planned:
  assumes "chunk_plan (length (rxLoc job)) (length (Xn job)) (worker_count job w) (maxRAM job)
             = Some (Inr (rowChunk, colChunk, totRAM))"
  shows "calculate job w =
     Some (case parallelized job of
             None \<Rightarrow> assemble_sequential job w
           | Some v \<Rightarrow>
               if v = [] then assemble_sequential job w
               else if v \<noteq> ''dask'' \<and> v \<noteq> ''multiprocessing''
                 then (Inl (AssertionError (backend_message v)), w)
               else if v = ''dask'' then assemble_dask job w
               else assemble_pool job (worker_count job w) w)"
  using assms by (simp add: calculate_def Let_def)


lemma worker_count_simps [simp]:
  "worker_count (job\<lparr>parallelized := v\<rparr>) w = worker_count job w"
  "worker_count job (w\<lparr>rows_computed := n\<rparr>) = worker_count job w"
  "worker_count job (w\<lparr>store := s\<rparr>) = worker_count job w"
  by (simp_all add: worker_count_def split: option.splits)

lemma example_job_plan:
  "chunk_plan (length (rxLoc (example_job\<lparr>parallelized := v\<rparr>)))
      (length (Xn (example_job\<lparr>parallelized := v\<rparr>)))
      (worker_count (example_job\<lparr>parallelized := v\<rparr>) w)
      (maxRAM (example_job\<lparr>parallelized := v\<rparr>)) = Some (Inr (1, 1, 8 / 10 ^ 9))"
  by (simp add: example_job_def worker_count_def chunk_plan_def truediv_def py_int_def
      totRAM_of_def chunk_loop.simps)

lemma example_job_rows:
  "compute_rows (example_job\<lparr>parallelized := v\<rparr>) = Inr [calcTrow_row example_job (0, 0, 0)]"
proof -
  have "\<not> forwardOnly (example_job\<lparr>parallelized := v\<rparr>)" by (simp add: example_job_def)
  then show ?thesis by (simp add: compute_rows_full) (simp add: example_job_def)
qed

lemma example_job_fields:
  "Jpath (example_job\<lparr>parallelized := v\<rparr>) = ''./sensitivity.zarr''"
  "storeG (example_job\<lparr>parallelized := v\<rparr>)"
  "rxLoc (example_job\<lparr>parallelized := v\<rparr>) = [(0, 0, 0)]"
  by (simp_all add: example_job_def)

lemma example_sequential:
  "calculate (example_job\<lparr>parallelized := None\<rparr>) w
     = Some (Inr [calcTrow_row example_job (0, 0, 0)], w\<lparr>rows_computed := rows_computed w + 1\<rparr>)"
  by (simp add: calculate_planned [OF example_job_plan] assemble_sequential_def
      example_job_rows vstack_def)

subsection \<open>Claims about \<^verbatim>\<open>Forward.calculate\<close>\<close>

text \<open>
  C1, as stated: for the same receivers, geometry, model and component the three
  backends return the same matrix. The dask branch first looks for a store at
  \<^verbatim>\<open>self.Jpath\<close> and returns what it holds; the other two branches never read the
  store. With a store at the default path that holds the \<open>1 \<times> 1\<close> matrix \<open>[[0]]\<close>, the
  dask backend returns \<open>[[0]]\<close> for the sample job and the sequential backend returns
  the computed row, whose entry is positive.
\<close>

theorem stale_store_changes_dask_result:
  "calculate (example_job\<lparr>parallelized := Some ''dask''\<rparr>) stale_world
     = Some (Inr [[0]], stale_world) \<and>
   calculate (example_job\<lparr>parallelized := None\<rparr>) stale_world
     = Some (Inr [calcTrow_row example_job (0, 0, 0)], stale_world\<lparr>rows_computed := 1\<rparr>) \<and>
   [calcTrow_row example_job (0, 0, 0)] \<noteq> [[0]]"
proof (intro conjI)
  show "calculate (example_job\<lparr>parallelized := Some ''dask''\<rparr>) stale_world
     = Some (Inr [[0]], stale_world)"
    by (simp add: calculate_planned [OF example_job_plan] assemble_dask_def
        example_job_fields stale_world_def)
  show "calculate (example_job\<lparr>parallelized := None\<rparr>) stale_world
     = Some (Inr [calcTrow_row example_job (0, 0, 0)], stale_world\<lparr>rows_computed := 1\<rparr>)"
    by (simp add: example_sequential) (simp add: stale_world_def)
  show "[calcTrow_row example_job (0, 0, 0)] \<noteq> [[0]]"
    using NewtG_pos example_sum_neg by (simp add: example_row)
qed

text \<open>
  C1, amended: when no store exists at \<^verbatim>\<open>self.Jpath\<close>, forward-only mode is off, the
  receiver list is not empty, the worker count is at least \<open>1\<close> and the chunk planner
  returns block sizes of at least \<open>1\<close>, the dask, multiprocessing and sequential
  backends return the same matrix: the rows of the kernel, one per receiver, in receiver
  order.
\<close>

theorem backends_agree_without_store:
  assumes "store w (Jpath job) = None"
    and "chunk_plan (length (rxLoc job)) (length (Xn job)) (worker_count job w) (maxRAM job)
           = Some (Inr (rowChunk, colChunk, totRAM))"
    and "dask_graph_ok job rowChunk colChunk"
    and "1 \<le> worker_count job w"
    and "rxLoc job \<noteq> []"
  shows "\<exists>wd wp ws.
      calculate (job\<lparr>parallelized := Some ''dask''\<rparr>) w
        = Some (Inr (map (calcTrow_row job) (rxLoc job)), wd) \<and>
      calculate (job\<lparr>parallelized := Some ''multiprocessing''\<rparr>) w
        = Some (Inr (map (calcTrow_row job) (rxLoc job)), wp) \<and>
      calculate (job\<lparr>parallelized := None\<rparr>) w
        = Some (Inr (map (calcTrow_row job) (rxLoc job)), ws)"
proof -
  from assms(3) have fo: "\<not> forwardOnly job" by (simp add: dask_graph_ok_def)
  have rows: "\<And>v. compute_rows (job\<lparr>parallelized := v\<rparr>) = Inr (map (calcTrow_row job) (rxLoc job))"
    using fo by (simp add: compute_rows_full)
  have plan: "\<And>v. chunk_plan (length (rxLoc (job\<lparr>parallelized := v\<rparr>)))
        (length (Xn (job\<lparr>parallelized := v\<rparr>))) (worker_count (job\<lparr>parallelized := v\<rparr>) w)
        (maxRAM (job\<lparr>parallelized := v\<rparr>)) = Some (Inr (rowChunk, colChunk, totRAM))"
    using assms(2) by simp
  show ?thesis
    using assms(1,4,5)
    by (simp add: calculate_planned [OF plan] assemble_dask_def assemble_pool_def
        assemble_sequential_def rows vstack_def Let_def)
qed

theorem backends_agree_without_store_witness:
  "\<exists>wd wp ws.
      calculate (example_job\<lparr>parallelized := Some ''dask''\<rparr>) example_world
        = Some (Inr [calcTrow_row example_job (0, 0, 0)], wd) \<and>
      calculate (example_job\<lparr>parallelized := Some ''multiprocessing''\<rparr>) example_world
        = Some (Inr [calcTrow_row example_job (0, 0, 0)], wp) \<and>
      calculate (example_job\<lparr>parallelized := None\<rparr>) example_world
        = Some (Inr [calcTrow_row example_job (0, 0, 0)], ws)"
proof -
  have h1: "store example_world (Jpath example_job) = None"
    by (simp add: example_world_def)
  have h2: "chunk_plan (length (rxLoc example_job)) (length (Xn example_job))
      (worker_count example_job example_world) (maxRAM example_job) = Some (Inr (1, 1, 8 / 10 ^ 9))"
    using example_job_plan [of None example_world] by (simp add: example_job_def worker_count_def)
  have h3: "dask_graph_ok example_job 1 1"
    by (simp add: dask_graph_ok_def example_job_def)
  have h4: "1 \<le> worker_count example_job example_world"
    by (simp add: worker_count_def example_job_def)
  have h5: "rxLoc example_job \<noteq> []"
    by (simp add: example_job_def)
  have "map (calcTrow_row example_job) (rxLoc example_job) = [calcTrow_row example_job (0, 0, 0)]"
    by (simp add: example_job_def)
  with backends_agree_without_store [OF h1 h2 h3 h4 h5] show ?thesis by simp
qed






section \<open>The operator\<close>

subsection \<open>Column sums and the diagonal of \<open>J\<^sup>T diag(c) J\<close>\<close>

lemma ncols_nonempty: "has_shape nr nc a \<Longrightarrow> 0 < nr \<Longrightarrow> ncols a = nc"
  by (cases a) (simp_all add: has_shape_def ncols_def)

lemma has_shape_nth: "has_shape nr nc a \<Longrightarrow> i < nr \<Longrightarrow> length (a ! i) = nc"
  by (simp add: has_shape_def list_all_length)

lemma col_sums_nth_sum:
  "col_sums a = map (\<lambda>j. \<Sum>i<length a. a ! i ! j) [0..<ncols a]"
proof -
  have "sum_list (map (\<lambda>row. row ! j) a) = (\<Sum>i<length a. a ! i ! j)" for j
    by (simp add: sum_list_sum_nth atLeast0LessThan)
  then show ?thesis by (simp add: col_sums_def)
qed

lemma jtj_from_spec:
  assumes shape: "has_shape nC nP dmudm" and pos: "0 < nC" and len: "length c = nC"
    and nonneg: "list_all (\<lambda>x. 0 \<le> x) c"
  shows "jtj_from c dmudm = Inr (spec_JtJdiag nP c dmudm)"
proof -
  define M where "M = map (map (\<lambda>x. x\<^sup>2)) (map2 (\<lambda>d row. map (\<lambda>x. sqrt d * x) row) c dmudm)"
  have lJ: "length dmudm = nC" using shape by (simp add: has_shape_def)
  have lM: "length M = nC" by (simp add: M_def len lJ)
  have rowM: "M ! i = map (\<lambda>x. (sqrt (c ! i) * x)\<^sup>2) (dmudm ! i)" if "i < nC" for i
    using that by (simp add: M_def len lJ)
  have shapeM: "has_shape nC nP M"
    unfolding has_shape_def
    using lM rowM has_shape_nth [OF shape] by (simp add: list_all_length)
  have ncM: "ncols M = nP" using shapeM pos by (rule ncols_nonempty)
  have entry: "M ! i ! j = c ! i * (dmudm ! i ! j)\<^sup>2" if "i < nC" "j < nP" for i j
  proof -
    have "0 \<le> c ! i" using nonneg that(1) len by (simp add: list_all_length)
    then have "(sqrt (c ! i))\<^sup>2 = c ! i" by simp
    then show ?thesis
      using that has_shape_nth [OF shape that(1)] by (simp add: rowM power_mult_distrib)
  qed
  have "jtj_from c dmudm = Inr (col_sums M)"
    by (simp add: jtj_from_def len lJ M_def)
  also have "col_sums M = map (\<lambda>j. \<Sum>i<nC. M ! i ! j) [0..<nP]"
    by (simp add: col_sums_nth_sum ncM lM)
  also have "\<dots> = map (\<lambda>j. \<Sum>i<nC. c ! i * (dmudm ! i ! j)\<^sup>2) [0..<nP]"
    by (rule map_cong) (simp_all add: entry)
  finally have lhs:
    "jtj_from c dmudm = Inr (map (\<lambda>j. \<Sum>i<nC. c ! i * (dmudm ! i ! j)\<^sup>2) [0..<nP])" .
  define A where "A = mat_transpose nP dmudm"
  define B where "B = mat_mul (length c) A (diag_matrix c)"
  define C where "C = mat_mul nP B dmudm"
  have lA: "length A = nP" by (simp add: A_def mat_transpose_def)
  have lB: "length B = nP" by (simp add: B_def mat_mul_def lA)
  have lC: "length C = nP" by (simp add: C_def mat_mul_def lB)
  have Ajl: "A ! j ! l = dmudm ! l ! j" if "j < nP" "l < nC" for j l
    using that by (simp add: A_def mat_transpose_def lJ)
  have Bjk: "B ! j ! k = dmudm ! k ! j * c ! k" if "j < nP" "k < nC" for j k
  proof -
    have D: "diag_matrix c ! l ! k = (if l = k then c ! l else 0)" if "l < nC" for l
      using that \<open>k < nC\<close> by (simp add: diag_matrix_def len)
    have "B ! j ! k = (\<Sum>l<nC. A ! j ! l * diag_matrix c ! l ! k)"
      using that by (simp add: B_def mat_mul_def lA len diag_matrix_def)
    also have "\<dots> = (\<Sum>l<nC. if l = k then dmudm ! k ! j * c ! k else 0)"
      by (rule sum.cong) (simp_all add: Ajl D that)
    also have "\<dots> = dmudm ! k ! j * c ! k"
      using that by (simp add: sum.delta')
    finally show ?thesis .
  qed
  have Cjj: "C ! j ! j = (\<Sum>i<nC. c ! i * (dmudm ! i ! j)\<^sup>2)" if "j < nP" for j
  proof -
    have "C ! j ! j = (\<Sum>k<nC. B ! j ! k * dmudm ! k ! j)"
      using that by (simp add: C_def mat_mul_def lB lJ)
    also have "\<dots> = (\<Sum>i<nC. c ! i * (dmudm ! i ! j)\<^sup>2)"
      by (rule sum.cong) (simp_all add: Bjk that power2_eq_square)
    finally show ?thesis .
  qed
  have "spec_JtJdiag nP c dmudm = map (\<lambda>j. C ! j ! j) [0..<nP]"
    by (simp add: spec_JtJdiag_def diag_of_def A_def B_def C_def lC [unfolded C_def B_def A_def])
  also have "\<dots> = map (\<lambda>j. \<Sum>i<nC. c ! i * (dmudm ! i ! j)\<^sup>2) [0..<nP]"
    by (rule map_cong) (simp_all add: Cjj)
  finally show ?thesis using lhs by simp
qed

lemma col_sum_squares_spec:
  assumes "has_shape nD nC g" and "0 < nD"
  shows "col_sum_squares g = colSumSquares nD nC g"
proof -
  define g2 where "g2 = map (map (\<lambda>x. x\<^sup>2)) g"
  have shape2: "has_shape nD nC g2"
    using assms(1) by (simp add: g2_def has_shape_def list_all_iff)
  have nc: "ncols g2 = nC" using shape2 assms(2) by (rule ncols_nonempty)
  have len: "length g2 = nD" "length g = nD" using assms(1) by (simp_all add: g2_def has_shape_def)
  have entry: "g2 ! i ! j = (g ! i ! j)\<^sup>2" if "i < nD" "j < nC" for i j
    using that has_shape_nth [OF assms(1) that(1)] by (simp add: g2_def len)
  have "col_sum_squares g = map (\<lambda>j. \<Sum>i<nD. g2 ! i ! j) [0..<nC]"
    by (simp add: col_sum_squares_def g2_def [symmetric] col_sums_nth_sum nc len)
  also have "\<dots> = map (\<lambda>j. \<Sum>i<nD. (g ! i ! j)\<^sup>2) [0..<nC]"
    by (rule map_cong) (simp_all add: entry)
  finally show ?thesis by (simp add: colSumSquares_def)
qed

subsection \<open>The cached matrix\<close>

lemma Intrgl_Fwr_Op_None_keeps:
  "Intrgl_Fwr_Op p None w = Some (res, p', w') \<Longrightarrow> p' = p"
  by (auto simp: Intrgl_Fwr_Op_def Let_def split: option.splits)

lemma G_unpaired: "\<not> ispaired p \<Longrightarrow> G p w = Some (Inl (Exception ''Need to pair!''), p, w)"
  by (simp add: G_def)

lemma G_cached: "ispaired p \<Longrightarrow> cached_G p = Some g \<Longrightarrow> G p w = Some (Inr g, p, w)"
  by (simp add: G_def)

lemma G_first:
  "ispaired p \<Longrightarrow> cached_G p = None \<Longrightarrow>
   G p w = (case Intrgl_Fwr_Op p None w of
              None \<Rightarrow> None
            | Some (Inl e, p', w') \<Rightarrow> Some (Inl e, p', w')
            | Some (Inr g, p', w') \<Rightarrow> Some (Inr g, p'\<lparr>cached_G := Some g\<rparr>, w'))"
  by (simp add: G_def)

lemma G_state:
  assumes "G p w = Some (Inr g, p', w')"
  shows "ispaired p" and "p' = p\<lparr>cached_G := Some g\<rparr>"
proof -
  show paired: "ispaired p" using assms by (auto simp: G_def split: if_splits)
  show "p' = p\<lparr>cached_G := Some g\<rparr>"
  proof (cases "cached_G p")
    case None
    with assms paired show ?thesis
      by (auto simp: G_def split: option.splits sum.splits dest: Intrgl_Fwr_Op_None_keeps)
  next
    case (Some h)
    with assms paired show ?thesis by (simp add: G_def)
  qed
qed

lemma G_again:
  assumes "G p w = Some (Inr g, p', w')"
  shows "G p' w2 = Some (Inr g, p', w2)"
proof -
  from G_state [OF assms] have "ispaired p'" "cached_G p' = Some g"
    by (simp_all add: ispaired_def)
  then show ?thesis by (rule G_cached)
qed

lemma getJtJdiag_cached:
  "gtgdiag p = Some c \<Longrightarrow>
   getJtJdiag p m W w = Some (jtj_from c (rhoMap_deriv p m), p\<lparr>GravityIntegral.model := Some m\<rparr>, w)"
  by (simp add: getJtJdiag_def Let_def)

lemma getJtJdiag_first:
  assumes "gtgdiag p = None"
    and "G (p\<lparr>GravityIntegral.model := Some m\<rparr>) w = Some (Inr g, p', w')"
  shows "getJtJdiag p m W w =
     Some (jtj_from (col_sum_squares g) (rhoMap_deriv p m),
           p'\<lparr>gtgdiag := Some (col_sum_squares g)\<rparr>, w')"
proof -
  note again = G_again [OF assms(2)]
  show ?thesis
  proof (cases W)
    case None
    then show ?thesis using assms again by (simp add: getJtJdiag_def Let_def)
  next
    case (Some Wm)
    then show ?thesis using assms by (simp add: getJtJdiag_def Let_def)
  qed
qed

subsection \<open>The sample problem\<close>

lemma sample_plan:
  assumes "rxLoc job = [(0, 0, 0)]" "Xn job = [(0, 1)]" "n_cpu job = Some 1" "maxRAM job = 8"
  shows "chunk_plan (length (rxLoc job)) (length (Xn job)) (worker_count job w) (maxRAM job)
           = Some (Inr (1, 1, 8 / 10 ^ 9))"
  using assms
  by (simp add: worker_count_def chunk_plan_def truediv_def py_int_def totRAM_of_def
      chunk_loop.simps)

lemma calcTrow_row_model [simp]:
  "calcTrow_row (job\<lparr>model := mo\<rparr>) = calcTrow_row job"
  "calcTrow_row (job\<lparr>forwardOnly := fo\<rparr>) = calcTrow_row job"
  by (intro ext, simp add: calcTrow_row_def)+

lemma sample_full:
  "calculate (example_job\<lparr>model := mo\<rparr>) w
     = Some (Inr [calcTrow_row example_job (0, 0, 0)], w\<lparr>rows_computed := rows_computed w + 1\<rparr>)"
proof -
  let ?job = "example_job\<lparr>model := mo\<rparr>"
  have plan: "chunk_plan (length (rxLoc ?job)) (length (Xn ?job)) (worker_count ?job w) (maxRAM ?job)
           = Some (Inr (1, 1, 8 / 10 ^ 9))"
    by (rule sample_plan) (simp_all add: example_job_def)
  have "\<not> forwardOnly ?job" by (simp add: example_job_def)
  then have rows: "compute_rows ?job = Inr [calcTrow_row example_job (0, 0, 0)]"
    by (simp add: compute_rows_full) (simp add: example_job_def)
  have par: "parallelized ?job = None" by (simp add: example_job_def)
  show ?thesis
    by (simp add: calculate_planned [OF plan] par assemble_sequential_def rows vstack_def)
qed

lemma sample_forward_only:
  "calculate (example_job\<lparr>model := Some [v], forwardOnly := True\<rparr>) w
     = Some (Inr [[dot (calcTrow_row example_job (0, 0, 0)) [v]]],
             w\<lparr>rows_computed := rows_computed w + 1\<rparr>)"
proof -
  let ?job = "example_job\<lparr>model := Some [v], forwardOnly := True\<rparr>"
  have plan: "chunk_plan (length (rxLoc ?job)) (length (Xn ?job)) (worker_count ?job w) (maxRAM ?job)
           = Some (Inr (1, 1, 8 / 10 ^ 9))"
    by (rule sample_plan) (simp_all add: example_job_def)
  have "calcTrow ?job (0, 0, 0) = Inr [dot (calcTrow_row example_job (0, 0, 0)) [v]]"
    by (simp add: calcTrow_def Let_def length_calcTrow_row) (simp add: example_job_def)
  then have rows: "compute_rows ?job = Inr [[dot (calcTrow_row example_job (0, 0, 0)) [v]]]"
    by (simp add: compute_rows_def example_job_def)
  have par: "parallelized ?job = None" by (simp add: example_job_def)
  show ?thesis
    by (simp add: calculate_planned [OF plan] par assemble_sequential_def rows vstack_def)
qed

lemma sample_Intrgl_full:
  "Intrgl_Fwr_Op (example_problem\<lparr>GravityIntegral.model := mo\<rparr>) None w
     = Some (Inr [calcTrow_row example_job (0, 0, 0)],
             example_problem\<lparr>GravityIntegral.model := mo\<rparr>,
             w\<lparr>rows_computed := rows_computed w + 1\<rparr>)"
proof -
  have job: "\<lparr>rxLoc = [(0, 0, 0)], Xn = [(0, 1)], Yn = [(0, 1)], Zn = [(- 3, 0)],
      n_cpu = Some 1, forwardOnly = False, model = mo, rxType = ''z'',
      parallelized = None, verbose = True, Jpath = ''./sensitivity.zarr'',
      maxRAM = 8, storeG = True\<rparr> = example_job\<lparr>model := mo\<rparr>"
    by (simp add: example_job_def)
  show ?thesis
    by (simp add: Intrgl_Fwr_Op_def example_problem_def Let_def job sample_full)
qed

lemma sample_Intrgl_forward_only:
  "Intrgl_Fwr_Op (example_problem\<lparr>GravityIntegral.forwardOnly := True\<rparr>) (Some [v]) w
     = Some (Inr [[dot (calcTrow_row example_job (0, 0, 0)) [2 * v]]],
             example_problem\<lparr>GravityIntegral.forwardOnly := True,
                              GravityIntegral.model := Some [2 * v]\<rparr>,
             w\<lparr>rows_computed := rows_computed w + 1\<rparr>)"
proof -
  have job: "\<lparr>rxLoc = [(0, 0, 0)], Xn = [(0, 1)], Yn = [(0, 1)], Zn = [(- 3, 0)],
      n_cpu = Some 1, forwardOnly = True, model = Some [2 * v], rxType = ''z'',
      parallelized = None, verbose = True, Jpath = ''./sensitivity.zarr'',
      maxRAM = 8, storeG = True\<rparr> = example_job\<lparr>model := Some [2 * v], forwardOnly := True\<rparr>"
    by (simp add: example_job_def)
  show ?thesis
    by (simp add: Intrgl_Fwr_Op_def example_problem_def Let_def job sample_forward_only)
qed

lemma sample_G:
  "G (example_problem\<lparr>GravityIntegral.model := mo\<rparr>) w
     = Some (Inr [calcTrow_row example_job (0, 0, 0)],
             example_problem\<lparr>GravityIntegral.model := mo,
                              cached_G := Some [calcTrow_row example_job (0, 0, 0)]\<rparr>,
             w\<lparr>rows_computed := rows_computed w + 1\<rparr>)"
proof -
  have "ispaired (example_problem\<lparr>GravityIntegral.model := mo\<rparr>)"
    "cached_G (example_problem\<lparr>GravityIntegral.model := mo\<rparr>) = None"
    by (simp_all add: ispaired_def example_problem_def)
  then show ?thesis by (simp add: G_first sample_Intrgl_full)
qed

lemma example_problem_model: "example_problem\<lparr>GravityIntegral.model := None\<rparr> = example_problem"
  by (simp add: example_problem_def)

lemma fields_forward_only_model:
  assumes "GravityIntegral.forwardOnly p" and "fields p m w = Some (res, p', w')"
  shows "GravityIntegral.model p' = Some (rhoMap p (rhoMap p m))"
  using assms
  by (auto simp: fields_def Intrgl_Fwr_Op_def Let_def split: option.splits sum.splits)

lemma cached_problem_G:
  "G (cached_problem\<lparr>GravityIntegral.model := Some m\<rparr>) w
     = Some (Inr [[1, 2], [3, 4]], cached_problem\<lparr>GravityIntegral.model := Some m\<rparr>, w)"
  by (rule G_cached) (simp_all add: cached_problem_def example_problem_def ispaired_def)

lemma hand_built_values:
  "colSumSquares 2 2 [[1, 2], [3, 4]] = [10, 20]"
  "spec_JtJdiag 2 [10, 20] [[1, 0], [0, 1]] = [10, 20]"
  by (simp_all add: colSumSquares_def spec_JtJdiag_def diag_of_def mat_mul_def
      mat_transpose_def diag_matrix_def numeral_2_eq_2 lessThan_Suc upt_rec)

subsection \<open>Claims about the operator\<close>

text \<open>
  C8: while the operator is not paired, every access to \<open>G\<close> fails with the pairing
  error (the code raises \<^verbatim>\<open>Exception('Need to pair!')\<close>) and leaves the operator and the
  world as they are, so no assembly is attempted; a paired operator without a cached
  matrix runs \<^verbatim>\<open>Intrgl_Fwr_Op\<close> and caches what it returns; and after an access that
  returned a matrix every later access returns that matrix from the cache and changes
  nothing.
\<close>

theorem G_needs_pairing_then_caches:
  "(\<not> ispaired p \<longrightarrow> G p w = Some (Inl (Exception ''Need to pair!''), p, w)) \<and>
   (ispaired p \<and> cached_G p = None \<longrightarrow>
      G p w = (case Intrgl_Fwr_Op p None w of
                 None \<Rightarrow> None
               | Some (Inl e, p', w') \<Rightarrow> Some (Inl e, p', w')
               | Some (Inr g, p', w') \<Rightarrow> Some (Inr g, p'\<lparr>cached_G := Some g\<rparr>, w'))) \<and>
   (G p w = Some (Inr g, p1, w1) \<longrightarrow>
      cached_G p1 = Some g \<and> (\<forall>w2. G p1 w2 = Some (Inr g, p1, w2)))"
proof (intro conjI impI allI)
  show "G p w = Some (Inl (Exception ''Need to pair!''), p, w)" if "\<not> ispaired p"
    using that by (rule G_unpaired)
  show "G p w = (case Intrgl_Fwr_Op p None w of
                 None \<Rightarrow> None
               | Some (Inl e, p', w') \<Rightarrow> Some (Inl e, p', w')
               | Some (Inr g, p', w') \<Rightarrow> Some (Inr g, p'\<lparr>cached_G := Some g\<rparr>, w'))"
    if "ispaired p \<and> cached_G p = None"
    using that by (simp add: G_first)
  show "cached_G p1 = Some g" if "G p w = Some (Inr g, p1, w1)"
    using G_state(2) [OF that] by simp
  show "G p1 w2 = Some (Inr g, p1, w2)" if "G p w = Some (Inr g, p1, w1)" for w2
    using that by (rule G_again)
qed

theorem G_needs_pairing_then_caches_witness:
  "G (example_problem\<lparr>survey := None\<rparr>) example_world
     = Some (Inl (Exception ''Need to pair!''), example_problem\<lparr>survey := None\<rparr>, example_world) \<and>
   (\<exists>p1 w1. G example_problem example_world
               = Some (Inr [calcTrow_row example_job (0, 0, 0)], p1, w1) \<and>
            G p1 w1 = Some (Inr [calcTrow_row example_job (0, 0, 0)], p1, w1))"
proof -
  have unpaired: "\<not> ispaired (example_problem\<lparr>survey := None\<rparr>)"
    by (simp add: ispaired_def)
  have first: "G example_problem example_world
     = Some (Inr [calcTrow_row example_job (0, 0, 0)],
             example_problem\<lparr>cached_G := Some [calcTrow_row example_job (0, 0, 0)]\<rparr>,
             example_world\<lparr>rows_computed := rows_computed example_world + 1\<rparr>)"
    using sample_G [of None example_world] by (simp add: example_problem_model)
  from G_needs_pairing_then_caches [of "example_problem\<lparr>survey := None\<rparr>" example_world]
    unpaired
  have a: "G (example_problem\<lparr>survey := None\<rparr>) example_world
     = Some (Inl (Exception ''Need to pair!''), example_problem\<lparr>survey := None\<rparr>, example_world)"
    by blast
  from G_needs_pairing_then_caches [of example_problem example_world
      "[calcTrow_row example_job (0, 0, 0)]"
      "example_problem\<lparr>cached_G := Some [calcTrow_row example_job (0, 0, 0)]\<rparr>"
      "example_world\<lparr>rows_computed := rows_computed example_world + 1\<rparr>"] first
  have b: "G (example_problem\<lparr>cached_G := Some [calcTrow_row example_job (0, 0, 0)]\<rparr>)
             (example_world\<lparr>rows_computed := rows_computed example_world + 1\<rparr>)
     = Some (Inr [calcTrow_row example_job (0, 0, 0)],
             example_problem\<lparr>cached_G := Some [calcTrow_row example_job (0, 0, 0)]\<rparr>,
             example_world\<lparr>rows_computed := rows_computed example_world + 1\<rparr>)"
    by blast
  from a first b show ?thesis by blast
qed

text \<open>
  C6: for every model \<open>m\<close> and every optional weight matrix \<open>W\<close>, with \<open>G\<close> an
  \<open>nD \<times> nC\<close> array and the map derivative an \<open>nC \<times> nP\<close> array, \<^verbatim>\<open>getJtJdiag(m, W)\<close>
  returns the diagonal of \<open>dMap(m)\<^sup>T diag(c) dMap(m)\<close>, where \<open>c\<close> is the vector of
  the sums of the squared entries of each column of \<open>G\<close> (\<open>colSumSquares\<close>); \<open>W\<close>
  does not occur in the result; the first call stores \<open>c\<close> in \<^verbatim>\<open>self.gtgdiag\<close>, and
  every later call, for any model and weights and from any world, computes its result
  from the stored vector without reading \<open>G\<close>.
\<close>

theorem getJtJdiag_is_diag_JtJ:
  assumes "gtgdiag p = None"
    and "G (p\<lparr>GravityIntegral.model := Some m\<rparr>) w = Some (Inr g, p', w')"
    and "has_shape nD nC g" and "0 < nD" and "0 < nC"
    and "has_shape nC nP (rhoMap_deriv p m)"
  shows "getJtJdiag p m W w =
           Some (Inr (spec_JtJdiag nP (colSumSquares nD nC g) (rhoMap_deriv p m)),
                 p'\<lparr>gtgdiag := Some (colSumSquares nD nC g)\<rparr>, w') \<and>
         (\<forall>m2 W2 w2 nP2. has_shape nC nP2 (rhoMap_deriv p m2) \<longrightarrow>
            getJtJdiag (p'\<lparr>gtgdiag := Some (colSumSquares nD nC g)\<rparr>) m2 W2 w2 =
              Some (Inr (spec_JtJdiag nP2 (colSumSquares nD nC g) (rhoMap_deriv p m2)),
                    p'\<lparr>gtgdiag := Some (colSumSquares nD nC g),
                       GravityIntegral.model := Some m2\<rparr>,
                    w2))"
proof -
  define c where "c = colSumSquares nD nC g"
  have cs: "col_sum_squares g = c"
    unfolding c_def using assms(3,4) by (rule col_sum_squares_spec)
  have lc: "length c = nC" by (simp add: c_def colSumSquares_def)
  have nn: "list_all (\<lambda>x. 0 \<le> x) c"
    by (simp add: c_def colSumSquares_def list_all_iff sum_nonneg)
  have spec: "jtj_from c (rhoMap_deriv p m2) = Inr (spec_JtJdiag nP2 c (rhoMap_deriv p m2))"
    if "has_shape nC nP2 (rhoMap_deriv p m2)" for m2 nP2
    using that assms(5) lc nn by (rule jtj_from_spec)
  from G_state(2) [OF assms(2)] have deriv: "rhoMap_deriv p' = rhoMap_deriv p" by simp
  have first: "getJtJdiag p m W w =
      Some (Inr (spec_JtJdiag nP c (rhoMap_deriv p m)), p'\<lparr>gtgdiag := Some c\<rparr>, w')"
    using getJtJdiag_first [OF assms(1,2), of W] spec [OF assms(6)] by (simp add: cs)
  have later: "getJtJdiag (p'\<lparr>gtgdiag := Some c\<rparr>) m2 W2 w2 =
      Some (Inr (spec_JtJdiag nP2 c (rhoMap_deriv p m2)),
            p'\<lparr>gtgdiag := Some c, GravityIntegral.model := Some m2\<rparr>, w2)"
    if "has_shape nC nP2 (rhoMap_deriv p m2)" for m2 W2 w2 nP2
    using spec [OF that] by (simp add: getJtJdiag_cached deriv)
  from first later show ?thesis unfolding c_def by blast
qed

theorem getJtJdiag_is_diag_JtJ_witness:
  "getJtJdiag cached_problem [0, 0] None example_world
     = Some (Inr [10, 20],
         cached_problem\<lparr>GravityIntegral.model := Some [0, 0], gtgdiag := Some [10, 20]\<rparr>,
         example_world) \<and>
   getJtJdiag cached_problem [0, 0] (Some [[5, 0], [0, 7]]) example_world
     = Some (Inr [10, 20],
         cached_problem\<lparr>GravityIntegral.model := Some [0, 0], gtgdiag := Some [10, 20]\<rparr>,
         example_world) \<and>
   getJtJdiag
       (cached_problem\<lparr>GravityIntegral.model := Some [0, 0], gtgdiag := Some [10, 20]\<rparr>)
       [7, 7] None stale_world
     = Some (Inr [10, 20],
         cached_problem\<lparr>gtgdiag := Some [10, 20], GravityIntegral.model := Some [7, 7]\<rparr>,
         stale_world)"
proof -
  have h1: "gtgdiag cached_problem = None"
    by (simp add: cached_problem_def example_problem_def)
  note h2 = cached_problem_G [of "[0, 0]" example_world]
  have h3: "has_shape 2 2 [[1, 2], [3, 4]]" by (simp add: has_shape_def)
  have d: "rhoMap_deriv cached_problem = (\<lambda>m. [[1, 0], [0, 1]])"
    by (simp add: cached_problem_def)
  have h6: "has_shape 2 2 (rhoMap_deriv cached_problem m)" for m
    by (simp add: d has_shape_def)
  have pos: "(0::nat) < 2" by simp
  note t = getJtJdiag_is_diag_JtJ [OF h1 h2 h3 pos pos h6]
  from t [of None] have a: "getJtJdiag cached_problem [0, 0] None example_world
     = Some (Inr [10, 20],
         cached_problem\<lparr>GravityIntegral.model := Some [0, 0], gtgdiag := Some [10, 20]\<rparr>,
         example_world)"
    by (simp add: hand_built_values d)
  from t [of "Some [[5, 0], [0, 7]]"]
  have b: "getJtJdiag cached_problem [0, 0] (Some [[5, 0], [0, 7]]) example_world
     = Some (Inr [10, 20],
         cached_problem\<lparr>GravityIntegral.model := Some [0, 0], gtgdiag := Some [10, 20]\<rparr>,
         example_world)"
    by (simp add: hand_built_values d)
  from t [of None] h6 [of "[7, 7]"]
  have c: "getJtJdiag
       (cached_problem\<lparr>GravityIntegral.model := Some [0, 0], gtgdiag := Some [10, 20]\<rparr>)
       [7, 7] None stale_world
     = Some (Inr [10, 20],
         cached_problem\<lparr>gtgdiag := Some [10, 20], GravityIntegral.model := Some [7, 7]\<rparr>,
         stale_world)"
    by (simp add: hand_built_values d)
  from a b c show ?thesis by blast
qed

text \<open>
  C3 states that \<^verbatim>\<open>fields(m)\<close> in forward-only mode equals \<open>G (rhoMap m)\<close> as computed
  with forward-only mode off. In forward-only mode \<^verbatim>\<open>fields\<close> maps the model and hands
  the result to \<^verbatim>\<open>Intrgl_Fwr_Op\<close>, which maps it again before it builds the job
  (\<open>fields_forward_only_model\<close>), so the rows are multiplied with
  \<open>rhoMap (rhoMap m)\<close>. For the sample problem, whose map doubles the model, and
  \<open>m = [1]\<close> the forward-only response is four times the entry of \<open>G\<close> and the
  full-matrix response is twice that entry, which is not zero.
\<close>

theorem forward_only_fields_applies_map_twice:
  "\<exists>p1 w1 p2 w2.
     fields (example_problem\<lparr>GravityIntegral.forwardOnly := True\<rparr>) [1] example_world
       = Some (Inr [4 * (- NewtG * signed_corner_sum ''z'' (0, 1) (0, 1) (3, 0))], p1, w1) \<and>
     fields example_problem [1] example_world
       = Some (Inr [2 * (- NewtG * signed_corner_sum ''z'' (0, 1) (0, 1) (3, 0))], p2, w2) \<and>
     4 * (- NewtG * signed_corner_sum ''z'' (0, 1) (0, 1) (3, 0))
       \<noteq> 2 * (- NewtG * signed_corner_sum ''z'' (0, 1) (0, 1) (3, 0))"
proof -
  have rho: "rhoMap (example_problem\<lparr>GravityIntegral.forwardOnly := True\<rparr>) [1] = [2]"
    "rhoMap example_problem [1] = [2]"
    by (simp_all add: example_problem_def)
  have fo: "GravityIntegral.forwardOnly (example_problem\<lparr>GravityIntegral.forwardOnly := True\<rparr>)"
    "\<not> GravityIntegral.forwardOnly example_problem"
    by (simp_all add: example_problem_def)
  have a: "fields (example_problem\<lparr>GravityIntegral.forwardOnly := True\<rparr>) [1] example_world
       = Some (Inr [4 * (- NewtG * signed_corner_sum ''z'' (0, 1) (0, 1) (3, 0))],
               example_problem\<lparr>GravityIntegral.forwardOnly := True,
                              GravityIntegral.model := Some [4]\<rparr>,
               example_world\<lparr>rows_computed := rows_computed example_world + 1\<rparr>)"
    using sample_Intrgl_forward_only [of 2 example_world]
    by (simp add: fields_def Let_def rho fo mkvc_def dot_def example_row)
  have b: "fields example_problem [1] example_world
       = Some (Inr [2 * (- NewtG * signed_corner_sum ''z'' (0, 1) (0, 1) (3, 0))],
               example_problem\<lparr>cached_G := Some [calcTrow_row example_job (0, 0, 0)]\<rparr>,
               example_world\<lparr>rows_computed := rows_computed example_world + 1\<rparr>)"
    using sample_G [of None example_world]
    by (simp add: fields_def Let_def rho fo example_problem_model mat_vec_def dot_def example_row)
  have c: "4 * (- NewtG * signed_corner_sum ''z'' (0, 1) (0, 1) (3, 0))
       \<noteq> 2 * (- NewtG * signed_corner_sum ''z'' (0, 1) (0, 1) (3, 0))"
    using NewtG_pos example_sum_neg by simp
  from a b c show ?thesis by blast
qed

end
